theory Spec2Isabelle
  imports Complex_Main
begin

section \<open>Numeric values and arrays\<close>

text \<open>
  Array elements are floats. A finite float is modelled by the real number it stands
  for (no rounding, no overflow); the IEEE special values that a division by zero
  produces are kept apart. Zero is unsigned: the model reads every zero as +0.
\<close>

datatype fval = Fin real | PInf | NInf | NaN


fun fadd :: "fval \<Rightarrow> fval \<Rightarrow> fval" where
  "fadd (Fin a) (Fin b) = Fin (a + b)"
| "fadd (Fin a) PInf = PInf"
| "fadd (Fin a) NInf = NInf"
| "fadd PInf (Fin b) = PInf"
| "fadd NInf (Fin b) = NInf"
| "fadd PInf PInf = PInf"
| "fadd NInf NInf = NInf"
| "fadd PInf NInf = NaN"
| "fadd NInf PInf = NaN"
| "fadd NaN _ = NaN"
| "fadd _ NaN = NaN"

fun fmul :: "fval \<Rightarrow> fval \<Rightarrow> fval" where
  "fmul (Fin a) (Fin b) = Fin (a * b)"
| "fmul (Fin a) PInf = (if a = 0 then NaN else if 0 < a then PInf else NInf)"
| "fmul (Fin a) NInf = (if a = 0 then NaN else if 0 < a then NInf else PInf)"
| "fmul PInf (Fin b) = (if b = 0 then NaN else if 0 < b then PInf else NInf)"
| "fmul NInf (Fin b) = (if b = 0 then NaN else if 0 < b then NInf else PInf)"
| "fmul PInf PInf = PInf"
| "fmul NInf NInf = PInf"
| "fmul PInf NInf = NInf"
| "fmul NInf PInf = NInf"
| "fmul NaN _ = NaN"
| "fmul _ NaN = NaN"

fun fdiv :: "fval \<Rightarrow> fval \<Rightarrow> fval" where
  "fdiv (Fin a) (Fin b) =
     (if b \<noteq> 0 then Fin (a / b)
      else if a = 0 then NaN else if 0 < a then PInf else NInf)"
| "fdiv (Fin a) PInf = Fin 0"
| "fdiv (Fin a) NInf = Fin 0"
| "fdiv PInf (Fin b) = (if 0 \<le> b then PInf else NInf)"
| "fdiv NInf (Fin b) = (if 0 \<le> b then NInf else PInf)"
| "fdiv PInf PInf = NaN"
| "fdiv PInf NInf = NaN"
| "fdiv NInf PInf = NaN"
| "fdiv NInf NInf = NaN"
| "fdiv NaN _ = NaN"
| "fdiv _ NaN = NaN"

definition fsum :: "fval list \<Rightarrow> fval" where
  "fsum xs = foldl fadd (Fin 0) xs"

text \<open>
  An array with at least one axis: the leading axis is the list \<open>rows\<close> (the channels
  of an image, the coordinate rows of a grid), each row holding the remaining axes
  \<open>axes\<close> flattened in C order. The source only ever indexes, slices and iterates the
  leading axis and treats the others as a block (\<open>reshape((n, -1))\<close>).
\<close>

record ndarray =
  axes :: "nat list"
  rows :: "fval list list"

definition shape :: "ndarray \<Rightarrow> nat list" where
  "shape a = length (rows a) # axes a"

definition ndim :: "ndarray \<Rightarrow> nat" where
  "ndim a = length (shape a)"

definition wf_array :: "ndarray \<Rightarrow> bool" where
  "wf_array a = list_all (\<lambda>r. length r = prod_list (axes a)) (rows a)"

datatype error = ValueError | IndexError | RuntimeError | TypeError

definition ebind :: "error + 'a \<Rightarrow> ('a \<Rightarrow> error + 'b) \<Rightarrow> error + 'b" where
  "ebind m f = (case m of Inl e \<Rightarrow> Inl e | Inr x \<Rightarrow> f x)"

text \<open>
  Where an array lives and what it holds. \<open>torch.tensor(x)\<close> makes a tensor on the CPU
  unless a device is given; a constructor's \<open>device=None\<close> is \<open>None\<close> here. \<open>Numpy\<close> and
  \<open>Tensor\<close> are arrays of a floating dtype, \<open>IntNumpy\<close> and \<open>IntTensor\<close> arrays of the
  integer dtype \<open>int64\<close>, whose values are whole numbers. \<open>torch.tensor\<close> and \<open>.to(device)\<close>
  keep the dtype; \<open>.float()\<close> keeps the values.
\<close>

datatype device = CPU | CUDA nat

datatype pyarray =
  Numpy ndarray | Tensor device ndarray | IntNumpy ndarray | IntTensor device ndarray

fun is_tensor :: "pyarray \<Rightarrow> bool" where
  "is_tensor (Tensor _ _) = True"
| "is_tensor (IntTensor _ _) = True"
| "is_tensor (Numpy _) = False"
| "is_tensor (IntNumpy _) = False"

fun is_integer :: "pyarray \<Rightarrow> bool" where
  "is_integer (IntTensor _ _) = True"
| "is_integer (IntNumpy _) = True"
| "is_integer (Tensor _ _) = False"
| "is_integer (Numpy _) = False"

fun contents :: "pyarray \<Rightarrow> ndarray" where
  "contents (Tensor _ a) = a"
| "contents (IntTensor _ a) = a"
| "contents (Numpy a) = a"
| "contents (IntNumpy a) = a"

fun device_of :: "pyarray \<Rightarrow> device" where
  "device_of (Tensor d _) = d"
| "device_of (IntTensor d _) = d"
| "device_of (Numpy _) = CPU"
| "device_of (IntNumpy _) = CPU"

definition torch_tensor :: "device option \<Rightarrow> ndarray \<Rightarrow> pyarray" where
  "torch_tensor dev a = Tensor (case dev of None \<Rightarrow> CPU | Some d \<Rightarrow> d) a"

section \<open>Matrices\<close>

text \<open>
  The affine matrices are small 2-D arrays computed from finite parameters; they are
  lists of rows over the reals. \<open>matmul\<close> is \<open>@\<close>: it raises when the inner sizes
  differ.
\<close>

type_synonym mat = "real list list"


definition eye :: "nat \<Rightarrow> mat" where
  "eye n = map (\<lambda>i. map (\<lambda>j. if i = j then 1 else 0) [0..<n]) [0..<n]"

definition ncols :: "'a list list \<Rightarrow> nat" where
  "ncols B = (case B of [] \<Rightarrow> 0 | r # _ \<Rightarrow> length r)"

definition mm :: "mat \<Rightarrow> mat \<Rightarrow> mat" where
  "mm A B =
     map (\<lambda>r. map (\<lambda>j. sum_list (map (\<lambda>k. r ! k * (B ! k) ! j) [0..<length B]))
                   [0..<ncols B]) A"

definition matmul :: "mat \<Rightarrow> mat \<Rightarrow> error + mat" where
  "matmul A B = (if list_all (\<lambda>r. length r = length B) A then Inr (mm A B)
                 else Inl ValueError)"

section \<open>Collaborators outside the source file\<close>

text \<open>
  A parameter group as Python passes it: \<open>None\<close>, one float, or a sequence of floats.
  \<open>truthy\<close> is Python's truth value of it.
\<close>

datatype param = PNone | PScalar real | PSeq "real list"

fun truthy :: "param \<Rightarrow> bool" where
  "truthy PNone = False"
| "truthy (PScalar x) = (x \<noteq> 0)"
| "truthy (PSeq xs) = (xs \<noteq> [])"

text \<open>
  The builders of \<open>monai.transforms.utils\<close> are imported by the source file and not
  part of it; the transforms take them as a parameter.
\<close>

record utils =
  create_grid :: "nat list \<Rightarrow> ndarray"
  create_control_grid :: "nat list \<Rightarrow> nat list \<Rightarrow> ndarray"
  create_rotate :: "nat \<Rightarrow> param \<Rightarrow> mat"
  create_shear :: "nat \<Rightarrow> param \<Rightarrow> mat"
  create_translate :: "nat \<Rightarrow> param \<Rightarrow> mat"
  create_scale :: "nat \<Rightarrow> param \<Rightarrow> mat"

section \<open>AffineGrid\<close>

record AffineGrid =
  rotate_params :: param
  shear_params :: param
  translate_params :: param
  scale_params :: param
  as_tensor_output :: bool
  device :: "device option"

text \<open>Lines 320 to 329: the matrix that \<open>__call__\<close> builds for a grid of \<open>spatial_dims\<close> axes.\<close>

definition AffineGrid_affine :: "utils \<Rightarrow> 'a AffineGrid_scheme \<Rightarrow> nat \<Rightarrow> error + mat" where
  "AffineGrid_affine u self spatial_dims =
     ebind (Inr (eye (spatial_dims + 1))) (\<lambda>affine.
     ebind (if truthy (rotate_params self)
            then matmul affine (create_rotate u spatial_dims (rotate_params self))
            else Inr affine) (\<lambda>affine.
     ebind (if truthy (shear_params self)
            then matmul affine (create_shear u spatial_dims (shear_params self))
            else Inr affine) (\<lambda>affine.
     ebind (if truthy (translate_params self)
            then matmul affine (create_translate u spatial_dims (translate_params self))
            else Inr affine) (\<lambda>affine.
     (if truthy (scale_params self)
      then matmul affine (create_scale u spatial_dims (scale_params self))
      else Inr affine)))))"

text \<open>
  Line 336: \<open>affine.float() @ grid.reshape((grid.shape[0], -1)).float()\<close>, reshaped back to
  \<open>[-1] + grid.shape[1:]\<close>. An array without elements cannot be reshaped with \<open>-1\<close>, and
  the product needs as many grid rows as the matrix has columns.
\<close>

definition apply_affine :: "mat \<Rightarrow> ndarray \<Rightarrow> error + ndarray" where
  "apply_affine affine grid =
     (if prod_list (shape grid) = 0 then Inl RuntimeError
      else if \<not> list_all (\<lambda>r. length r = length (rows grid)) affine then Inl RuntimeError
      else Inr \<lparr>axes = axes grid,
                rows = map (\<lambda>r. map (\<lambda>p. fsum (map (\<lambda>k. fmul (Fin (r ! k)) (rows grid ! k ! p))
                                                   [0..<length (rows grid)]))
                                      [0..<prod_list (axes grid)]) affine\<rparr>)"

text \<open>
  \<open>AffineGrid.__call__\<close>. The grid argument, when given, is a numpy array or a tensor;
  the matrix is made on the configured device (the CPU by default) and the grid is moved
  only when a device is configured, so a tensor on another device meets a CPU matrix.
\<close>

definition AffineGrid_call ::
  "utils \<Rightarrow> 'a AffineGrid_scheme \<Rightarrow> nat list option \<Rightarrow> pyarray option \<Rightarrow> error + pyarray" where
  "AffineGrid_call u self spatial_size grid =
     ebind (case grid of
              Some g \<Rightarrow> Inr g
            | None \<Rightarrow> (case spatial_size of
                         Some s \<Rightarrow> Inr (Numpy (create_grid u s))
                       | None \<Rightarrow> Inl ValueError)) (\<lambda>grid.
     let spatial_dims = length (shape (contents grid)) - 1 in
     ebind (AffineGrid_affine u self spatial_dims) (\<lambda>affine.
     let affine_dev = (case device self of None \<Rightarrow> CPU | Some d \<Rightarrow> d);
         grid_dev = (case device self of None \<Rightarrow> device_of grid | Some d \<Rightarrow> d) in
     if affine_dev \<noteq> grid_dev then Inl RuntimeError
     else ebind (apply_affine affine (contents grid)) (\<lambda>g.
          if as_tensor_output self then Inr (Tensor grid_dev g) else Inr (Numpy g))))"

section \<open>The seeded draw source\<close>

text \<open>
  Modelled from the spec: \<open>Randomizable\<close> (monai.transforms.compose) and its
  \<open>RandomState\<close> \<open>R\<close> are not in the source file. The spec gives the draw source as a
  supplied capability with \<open>uniform_scalar() -> float in [0,1)\<close>, \<open>uniform(low, high)\<close> and
  \<open>normal(shape)\<close>. A state is the sequence of unit-interval samples and the sequence of
  standard-normal samples its seed determines, and the position reached; every scalar
  drawn moves the position by one. \<open>uniform(low, high)\<close> is \<open>low + (high - low) * u\<close>
  for the unit-interval sample \<open>u\<close>.
\<close>

record RandomState =
  unit_samples :: "nat \<Rightarrow> real"
  normal_samples :: "nat \<Rightarrow> real"
  pos :: nat

definition R_rand :: "RandomState \<Rightarrow> real \<times> RandomState" where
  "R_rand R = (unit_samples R (pos R), R\<lparr>pos := pos R + 1\<rparr>)"

definition R_uniform :: "real \<Rightarrow> real \<Rightarrow> RandomState \<Rightarrow> real \<times> RandomState" where
  "R_uniform low high R =
     (low + (high - low) * unit_samples R (pos R), R\<lparr>pos := pos R + 1\<rparr>)"

definition R_uniform_size :: "real \<Rightarrow> real \<Rightarrow> nat \<Rightarrow> RandomState \<Rightarrow> real list \<times> RandomState" where
  "R_uniform_size low high n R =
     (map (\<lambda>k. low + (high - low) * unit_samples R (pos R + k)) [0..<n],
      R\<lparr>pos := pos R + n\<rparr>)"

definition R_normal :: "nat \<Rightarrow> RandomState \<Rightarrow> real list \<times> RandomState" where
  "R_normal n R = (map (\<lambda>k. normal_samples R (pos R + k)) [0..<n], R\<lparr>pos := pos R + n\<rparr>)"

text \<open>A flat list of \<open>n * m\<close> values cut into \<open>n\<close> rows of \<open>m\<close>.\<close>

definition chunks :: "nat \<Rightarrow> nat \<Rightarrow> 'a list \<Rightarrow> 'a list list" where
  "chunks n m xs = map (\<lambda>i. take m (drop (i * m) xs)) [0..<n]"

section \<open>RandAffineGrid\<close>

text \<open>
  The range fields hold what \<open>__init__\<close> stored, a tuple whose entries are floats or
  \<open>None\<close>; the parameter fields start as \<open>None\<close> and are set by \<open>randomize\<close>.
\<close>

record RandAffineGrid =
  rotate_range :: "real option list"
  shear_range :: "real option list"
  translate_range :: "real option list"
  scale_range :: "real option list"
  rag_rotate_params :: param
  rag_shear_params :: param
  rag_translate_params :: param
  rag_scale_params :: param
  rag_as_tensor_output :: bool
  rag_device :: "device option"
  rag_R :: RandomState

text \<open>\<open>[self.R.uniform(-f, f) for f in range if f is not None]\<close>\<close>

fun draw_uniform :: "real option list \<Rightarrow> RandomState \<Rightarrow> real list \<times> RandomState" where
  "draw_uniform [] R = ([], R)"
| "draw_uniform (None # fs) R = draw_uniform fs R"
| "draw_uniform (Some f # fs) R =
     (let (x, R1) = R_uniform (- f) f R;
          (xs, R2) = draw_uniform fs R1
      in (x # xs, R2))"

text \<open>\<open>[self.R.uniform(-f, f) + 1.0 for f in self.scale_range if f is not None]\<close>\<close>

fun draw_scale :: "real option list \<Rightarrow> RandomState \<Rightarrow> real list \<times> RandomState" where
  "draw_scale [] R = ([], R)"
| "draw_scale (None # fs) R = draw_scale fs R"
| "draw_scale (Some f # fs) R =
     (let (x, R1) = R_uniform (- f) f R;
          (xs, R2) = draw_scale fs R1
      in ((x + 1) # xs, R2))"

definition RandAffineGrid_randomize :: "RandAffineGrid \<Rightarrow> RandAffineGrid" where
  "RandAffineGrid_randomize self =
     (let self = (if rotate_range self \<noteq> []
                  then (let (ps, R1) = draw_uniform (rotate_range self) (rag_R self)
                        in self\<lparr>rag_rotate_params := PSeq ps, rag_R := R1\<rparr>)
                  else self);
          self = (if shear_range self \<noteq> []
                  then (let (ps, R1) = draw_uniform (shear_range self) (rag_R self)
                        in self\<lparr>rag_shear_params := PSeq ps, rag_R := R1\<rparr>)
                  else self);
          self = (if translate_range self \<noteq> []
                  then (let (ps, R1) = draw_uniform (translate_range self) (rag_R self)
                        in self\<lparr>rag_translate_params := PSeq ps, rag_R := R1\<rparr>)
                  else self);
          self = (if scale_range self \<noteq> []
                  then (let (ps, R1) = draw_scale (scale_range self) (rag_R self)
                        in self\<lparr>rag_scale_params := PSeq ps, rag_R := R1\<rparr>)
                  else self)
      in self)"

definition RandAffineGrid_call ::
  "utils \<Rightarrow> RandAffineGrid \<Rightarrow> nat list option \<Rightarrow> pyarray option
     \<Rightarrow> (error + pyarray) \<times> RandAffineGrid" where
  "RandAffineGrid_call u self spatial_size grid =
     (let self = RandAffineGrid_randomize self;
          affine_grid = \<lparr>rotate_params = rag_rotate_params self,
                         shear_params = rag_shear_params self,
                         translate_params = rag_translate_params self,
                         scale_params = rag_scale_params self,
                         as_tensor_output = rag_as_tensor_output self,
                         device = rag_device self\<rparr>
      in (AffineGrid_call u affine_grid spatial_size grid, self))"

section \<open>The builders, as the spec describes them\<close>

text \<open>
  Modelled from the spec: \<open>create_grid\<close> (monai.transforms.utils) is not in the source
  file. The spec gives a homogeneous coordinate grid of shape \<open>(D+1, *spatial_size)\<close>
  whose leading axis holds \<open>(x, y[, z], 1)\<close> for every position, in coordinates that
  \<open>2 * grid[i] / (dim_i - 1)\<close> carries onto \<open>[-1, 1]\<close>: position \<open>k\<close> of an axis of size
  \<open>d\<close> has coordinate \<open>k - (d - 1) / 2\<close>.
\<close>

fun unravel :: "nat list \<Rightarrow> nat \<Rightarrow> nat list" where
  "unravel [] p = []"
| "unravel (n # ns) p = (p div prod_list ns) mod n # unravel ns p"

definition spec_create_grid :: "nat list \<Rightarrow> ndarray" where
  "spec_create_grid spatial_size =
     \<lparr>axes = spatial_size,
      rows = map (\<lambda>a. map (\<lambda>p. Fin (real (unravel spatial_size p ! a)
                                       - (real (spatial_size ! a) - 1) / 2))
                           [0..<prod_list spatial_size])
                 [0..<length spatial_size]
             @ [replicate (prod_list spatial_size) (Fin 1)]\<rparr>"

text \<open>
  Modelled from the spec: \<open>create_translate\<close> and \<open>create_scale\<close>
  (monai.transforms.utils) are not in the source file. The spec gives
  \<open>translate(D, params)\<close> and \<open>scale(D, params)\<close> as \<open>(D+1) x (D+1)\<close> homogeneous
  matrices: the identity with the shifts in the last column, and the diagonal matrix of
  the factors. Axes without a parameter are not shifted and not scaled.
\<close>

fun values_of :: "param \<Rightarrow> real list" where
  "values_of PNone = []"
| "values_of (PScalar x) = [x]"
| "values_of (PSeq xs) = xs"

definition padded :: "real \<Rightarrow> nat \<Rightarrow> real list \<Rightarrow> real list" where
  "padded c n xs = take n xs @ replicate (n - length xs) c"

definition spec_create_translate :: "nat \<Rightarrow> param \<Rightarrow> mat" where
  "spec_create_translate d p =
     map (\<lambda>i. map (\<lambda>j. if i = j then 1
                         else if j = d then padded 0 d (values_of p) ! i else 0)
                   [0..<d + 1]) [0..<d + 1]"

definition spec_create_scale :: "nat \<Rightarrow> param \<Rightarrow> mat" where
  "spec_create_scale d p =
     map (\<lambda>i. map (\<lambda>j. if i = j then (if i < d then padded 1 d (values_of p) ! i else 1)
                         else 0)
                   [0..<d + 1]) [0..<d + 1]"

text \<open>
  The builders used in the examples. The rotation and shear builders and the control
  grid are not modelled: here they return an empty array, which no product accepts, so
  an example that reached them would end in an error.
\<close>

definition example_utils :: utils where
  "example_utils =
     \<lparr>create_grid = spec_create_grid,
      create_control_grid = (\<lambda>spatial_size spacing. \<lparr>axes = [], rows = []\<rparr>),
      create_rotate = (\<lambda>d p. []),
      create_shear = (\<lambda>d p. []),
      create_translate = spec_create_translate,
      create_scale = spec_create_scale\<rparr>"

section \<open>RandDeformGrid\<close>

record RandDeformGrid =
  spacing :: "nat list"
  magnitude :: "real \<times> real"
  rand_mag :: real
  random_offset :: "real list list"
  rdg_as_tensor_output :: bool
  rdg_device :: "device option"
  rdg_R :: RandomState

text \<open>
  \<open>randomize(grid_size)\<close>: a standard-normal field of shape \<open>[len(grid_size)] + grid_size\<close>,
  then one magnitude from \<open>uniform(magnitude[0], magnitude[1])\<close>.
\<close>

definition RandDeformGrid_randomize :: "RandDeformGrid \<Rightarrow> nat list \<Rightarrow> RandDeformGrid" where
  "RandDeformGrid_randomize self grid_size =
     (let (offs, R1) = R_normal (length grid_size * prod_list grid_size) (rdg_R self);
          (mag, R2) = R_uniform (fst (magnitude self)) (snd (magnitude self)) R1
      in self\<lparr>random_offset := chunks (length grid_size) (prod_list grid_size) offs,
               rand_mag := mag, rdg_R := R2\<rparr>)"

text \<open>
  \<open>lhs += rhs\<close> on blocks of rows with equal trailing axes: the right side has as many
  rows as the left, or one row that is broadcast; otherwise numpy raises.
\<close>

definition iadd_rows :: "fval list list \<Rightarrow> fval list list \<Rightarrow> error + fval list list" where
  "iadd_rows lhs rhs =
     (if length rhs = length lhs then Inr (map2 (\<lambda>l r. map2 fadd l r) lhs rhs)
      else if length rhs = 1 then Inr (map (\<lambda>l. map2 fadd l (rhs ! 0)) lhs)
      else Inl ValueError)"

text \<open>
  \<open>__call__\<close>: \<open>control_grid[:len(spatial_size)] += self.rand_mag * self.random_offset\<close>. The
  slice holds the first \<open>len(spatial_size)\<close> rows, or all rows when there are fewer.
\<close>

definition RandDeformGrid_call ::
  "utils \<Rightarrow> RandDeformGrid \<Rightarrow> nat list \<Rightarrow> (error + pyarray) \<times> RandDeformGrid" where
  "RandDeformGrid_call u self spatial_size =
     (let control_grid = create_control_grid u spatial_size (spacing self);
          self = RandDeformGrid_randomize self (axes control_grid);
          k = min (length spatial_size) (length (rows control_grid));
          offset = map (map (\<lambda>x. Fin (rand_mag self * x))) (random_offset self)
      in (ebind (iadd_rows (take k (rows control_grid)) offset) (\<lambda>head.
          let control_grid = control_grid\<lparr>rows := head @ drop k (rows control_grid)\<rparr>
          in if rdg_as_tensor_output self
             then Inr (torch_tensor (rdg_device self) control_grid)
             else Inr (Numpy control_grid)),
          self))"

section \<open>The sampling primitive\<close>

text \<open>
  \<open>torch.nn.functional.grid_sample\<close> with \<open>align_corners=False\<close>, as torch documents it.
  A normalised coordinate \<open>c\<close> of an axis of \<open>sz\<close> pixels stands for the pixel position
  \<open>((c + 1) * sz - 1) / 2\<close>, so that \<open>-1\<close> and \<open>1\<close> are the outer edges of the first and
  the last pixel.
\<close>

datatype interp = Nearest | Bilinear

datatype padding = Zeros | Border | Reflection

definition unnormalize :: "nat \<Rightarrow> real \<Rightarrow> real" where
  "unnormalize sz c = ((c + 1) * real sz - 1) / 2"

definition clip_coordinates :: "nat \<Rightarrow> real \<Rightarrow> real" where
  "clip_coordinates sz x = min (real sz - 1) (max x 0)"

definition reflect_coordinates :: "int \<Rightarrow> int \<Rightarrow> real \<Rightarrow> real" where
  "reflect_coordinates twice_low twice_high x =
     (if twice_low = twice_high then 0
      else let mn = real_of_int twice_low / 2;
               span = real_of_int (twice_high - twice_low) / 2;
               y = \<bar>x - mn\<bar>;
               flips = \<lfloor>y / span\<rfloor>;
               extra = y - span * real_of_int flips
           in if even flips then extra + mn else span - extra + mn)"

definition compute_source_index :: "padding \<Rightarrow> nat \<Rightarrow> real \<Rightarrow> real" where
  "compute_source_index pad sz c =
     (let x = unnormalize sz c
      in case pad of
           Zeros \<Rightarrow> x
         | Border \<Rightarrow> clip_coordinates sz x
         | Reflection \<Rightarrow>
             clip_coordinates sz (reflect_coordinates (- 1) (2 * int sz - 1) x))"

text \<open>\<open>nearbyint\<close> in the default rounding mode: to the nearest integer, ties to even.\<close>

definition nearbyint :: "real \<Rightarrow> int" where
  "nearbyint x =
     (let f = \<lfloor>x\<rfloor>; d = x - real_of_int f
      in if d < 1 / 2 then f else if 1 / 2 < d then f + 1
         else if even f then f else f + 1)"

definition within_bounds :: "nat list \<Rightarrow> int list \<Rightarrow> bool" where
  "within_bounds sizes idx = list_all2 (\<lambda>n i. 0 \<le> i \<and> i < int n) sizes idx"

definition ravel :: "nat list \<Rightarrow> int list \<Rightarrow> nat" where
  "ravel sizes idx = foldl (\<lambda>acc (n, i). acc * n + nat i) 0 (zip sizes idx)"

text \<open>The two neighbours of a position along one axis, with their linear weights.\<close>

definition neighbours :: "real \<Rightarrow> (int \<times> real) list" where
  "neighbours x = [(\<lfloor>x\<rfloor>, real_of_int \<lfloor>x\<rfloor> + 1 - x), (\<lfloor>x\<rfloor> + 1, x - real_of_int \<lfloor>x\<rfloor>)]"

fun corners :: "(int \<times> real) list list \<Rightarrow> (int list \<times> real) list" where
  "corners [] = [([], 1)]"
| "corners (ax # rest) =
     concat (map (\<lambda>(i, w). map (\<lambda>(idx, v). (i # idx, w * v)) (corners rest)) ax)"

fun finite_values :: "fval list \<Rightarrow> real list option" where
  "finite_values [] = Some []"
| "finite_values (Fin x # xs) = map_option ((#) x) (finite_values xs)"
| "finite_values (_ # xs) = None"

text \<open>
  Primitives of torch and scipy whose results the model does not compute: what the
  sampling kernel returns at a coordinate that is infinite or NaN (it depends on the
  backend), bicubic \<open>interpolate\<close>, \<open>gaussian_filter\<close>, what a float that is infinite, NaN
  or outside the range of \<open>int64\<close> becomes when it is stored in an integer tensor
  (undefined in C), and the quotient \<open>grid[:-1] / grid[-1:]\<close> of integer tensors (it
  truncates, raises or divides exactly, depending on the torch release).
\<close>

record prims =
  nonfinite_sample :: "padding \<Rightarrow> interp \<Rightarrow> nat list \<Rightarrow> fval list \<Rightarrow> fval list \<Rightarrow> fval"
  interpolate_bicubic :: "ndarray \<Rightarrow> nat list \<Rightarrow> error + ndarray"
  gaussian_filter :: "nat list \<Rightarrow> real list \<Rightarrow> real \<Rightarrow> real list"
  cast_undefined :: "fval \<Rightarrow> fval"
  integer_divide :: "fval list list \<Rightarrow> error + fval list list"

text \<open>
  One output value: \<open>chan\<close> is one channel of the input, of spatial shape \<open>sizes\<close>;
  \<open>pt\<close> is the coordinate tuple of the output position, \<open>x\<close> first, so its first
  component addresses the last spatial axis. Neighbours outside the image add nothing.
\<close>

definition sample_point ::
  "prims \<Rightarrow> padding \<Rightarrow> interp \<Rightarrow> nat list \<Rightarrow> fval list \<Rightarrow> fval list \<Rightarrow> fval" where
  "sample_point P pad mode sizes chan pt =
     (case finite_values (rev pt) of
        None \<Rightarrow> nonfinite_sample P pad mode sizes chan pt
      | Some cs \<Rightarrow>
          let xs = map2 (compute_source_index pad) sizes cs
          in case mode of
               Nearest \<Rightarrow>
                 (let idx = map nearbyint xs
                  in if within_bounds sizes idx then chan ! ravel sizes idx else Fin 0)
             | Bilinear \<Rightarrow>
                 fsum (map (\<lambda>(idx, w). fmul (chan ! ravel sizes idx) (Fin w))
                           (filter (\<lambda>(idx, w). within_bounds sizes idx)
                                   (corners (map neighbours xs)))))"

text \<open>
  A grid after \<open>permute\<close>: the shape of the output positions and, for each position in C
  order, its coordinate tuple of \<open>ncomp\<close> components.
\<close>

record pgrid =
  out_axes :: "nat list"
  ncomp :: nat
  pts :: "fval list list"

definition permute :: "ndarray \<Rightarrow> pgrid" where
  "permute g = \<lparr>out_axes = axes g, ncomp = length (rows g),
                pts = map (\<lambda>p. map (\<lambda>r. r ! p) (rows g)) [0..<prod_list (axes g)]\<rparr>"

text \<open>
  \<open>grid_sample(img[None], grid[None], ...)[0]\<close>: the input must have 2 or 3 spatial axes,
  none of them empty, and the grid as many axes as the input and one coordinate per
  spatial axis; otherwise torch raises.
\<close>

definition grid_sample ::
  "prims \<Rightarrow> ndarray \<Rightarrow> pgrid \<Rightarrow> interp \<Rightarrow> padding \<Rightarrow> error + ndarray" where
  "grid_sample P input grid mode pad =
     (let D = length (axes input)
      in if (D \<noteq> 2 \<and> D \<noteq> 3) \<or> length (out_axes grid) \<noteq> D \<or> ncomp grid \<noteq> D
            \<or> 0 \<in> set (axes input)
         then Inl RuntimeError
         else Inr \<lparr>axes = out_axes grid,
                   rows = map (\<lambda>chan. map (sample_point P pad mode (axes input) chan) (pts grid))
                              (rows input)\<rparr>)"

section \<open>Resample\<close>

record Resample =
  padding_mode :: padding
  rs_as_tensor_output :: bool
  rs_device :: "device option"

text \<open>
  Line 480 writes \<open>2. * grid[i] / (dim - 1.)\<close>, a floating value, into row \<open>i\<close> of the
  grid tensor, which keeps its dtype: an integer tensor stores the value truncated
  toward zero.
\<close>

definition normalize_row :: "nat \<Rightarrow> fval list \<Rightarrow> fval list" where
  "normalize_row dim_i row = map (\<lambda>x. fdiv (fmul (Fin 2) x) (Fin (real dim_i - 1))) row"

definition to_int64 :: "prims \<Rightarrow> fval \<Rightarrow> fval" where
  "to_int64 P x =
     (case x of
        Fin a \<Rightarrow>
          (let t = (if 0 \<le> a then \<lfloor>a\<rfloor> else \<lceil>a\<rceil>)
           in if - (2 ^ 63) \<le> t \<and> t < 2 ^ 63 then Fin (real_of_int t)
              else cast_undefined P x)
      | _ \<Rightarrow> cast_undefined P x)"

definition store_row :: "prims \<Rightarrow> bool \<Rightarrow> fval list \<Rightarrow> fval list" where
  "store_row P integer row = (if integer then map (to_int64 P) row else row)"

text \<open>
  Lines 479 and 480, from index \<open>i\<close> on: the loop
  \<open>for i, dim in enumerate(img.shape[1:]): grid[i] = 2. * grid[i] / (dim - 1.)\<close>.
  The rows are written one after the other into the same tensor; reading a row the grid
  does not have raises \<open>IndexError\<close> and leaves the rows written so far.
\<close>

fun normalize_rows ::
  "prims \<Rightarrow> bool \<Rightarrow> nat \<Rightarrow> nat list \<Rightarrow> fval list list \<Rightarrow> error option \<times> fval list list" where
  "normalize_rows P integer i [] g = (None, g)"
| "normalize_rows P integer i (dim_i # dims) g =
     (if i < length g
      then normalize_rows P integer (i + 1) dims
             (g[i := store_row P integer (normalize_row dim_i (g ! i))])
      else (Some IndexError, g))"

text \<open>Line 481: \<open>grid[:-1] / grid[-1:]\<close> on a floating tensor.\<close>

definition homogeneous_divide :: "fval list list \<Rightarrow> fval list list" where
  "homogeneous_divide g =
     (if g = [] then [] else map (\<lambda>r. map2 fdiv r (last g)) (butlast g))"

text \<open>Line 482: indexing the leading axis with a list of indices.\<close>

definition select_rows :: "nat list \<Rightarrow> 'a list \<Rightarrow> error + 'a list" where
  "select_rows idx g =
     (if list_all (\<lambda>j. j < length g) idx then Inr (map (\<lambda>j. g ! j) idx)
      else Inl IndexError)"

text \<open>The array object \<open>x\<close> holding other contents.\<close>

fun with_contents :: "pyarray \<Rightarrow> ndarray \<Rightarrow> pyarray" where
  "with_contents (Tensor d _) a = Tensor d a"
| "with_contents (IntTensor d _) a = IntTensor d a"
| "with_contents (Numpy _) a = Numpy a"
| "with_contents (IntNumpy _) a = IntNumpy a"

text \<open>
  \<open>Resample.__call__\<close>. The second component of the result is the caller's grid object
  when the call ends. \<open>torch.tensor(grid)\<close> copies a numpy array and \<open>grid.to(device)\<close>
  copies a tensor that lives elsewhere, so the loop writes into the caller's object
  exactly when that is a tensor already on the device in use.
\<close>

definition Resample_call ::
  "prims \<Rightarrow> Resample \<Rightarrow> pyarray \<Rightarrow> pyarray \<Rightarrow> interp \<Rightarrow> (error + pyarray) \<times> pyarray" where
  "Resample_call P self img grid mode =
     (let img_dev = (case rs_device self of None \<Rightarrow> device_of img | Some d \<Rightarrow> d);
          grid_dev = (case rs_device self of None \<Rightarrow> device_of grid | Some d \<Rightarrow> d);
          in_place = (is_tensor grid \<and> grid_dev = device_of grid);
          image = contents img;
          g = contents grid;
          (err, normalized) = normalize_rows P (is_integer grid) 0 (axes image) (rows g);
          grid_after = (if in_place then with_contents grid (g\<lparr>rows := normalized\<rparr>)
                        else grid)
      in (case err of
            Some e \<Rightarrow> Inl e
          | None \<Rightarrow>
              ebind (if is_integer grid then integer_divide P normalized
                     else Inr (homogeneous_divide normalized)) (\<lambda>quotient.
              ebind (select_rows (rev [0..<length (axes image)]) quotient) (\<lambda>sel.
              if img_dev \<noteq> grid_dev then Inl RuntimeError
              else ebind (grid_sample P image (permute \<lparr>axes = axes g, rows = sel\<rparr>) mode
                            (padding_mode self)) (\<lambda>out.
                   if rs_as_tensor_output self then Inr (Tensor img_dev out)
                   else Inr (Numpy out)))),
          grid_after))"

section \<open>Affine\<close>

record Affine =
  affine_grid :: AffineGrid
  resampler :: Resample

definition Affine_init ::
  "param \<Rightarrow> param \<Rightarrow> param \<Rightarrow> param \<Rightarrow> padding \<Rightarrow> bool \<Rightarrow> device option \<Rightarrow> Affine" where
  "Affine_init rotate_p shear_p translate_p scale_p pad as_tensor dev =
     \<lparr>affine_grid = \<lparr>rotate_params = rotate_p, shear_params = shear_p,
                      translate_params = translate_p, scale_params = scale_p,
                      as_tensor_output = True, device = dev\<rparr>,
      resampler = \<lparr>padding_mode = pad, rs_as_tensor_output = as_tensor, rs_device = dev\<rparr>\<rparr>"

definition Affine_call ::
  "utils \<Rightarrow> prims \<Rightarrow> Affine \<Rightarrow> pyarray \<Rightarrow> nat list \<Rightarrow> interp \<Rightarrow> error + pyarray" where
  "Affine_call u P self img spatial_size mode =
     ebind (AffineGrid_call u (affine_grid self) (Some spatial_size) None) (\<lambda>grid.
     fst (Resample_call P (resampler self) img grid mode))"

section \<open>RandAffine\<close>

record RandAffine =
  ra_rand_affine_grid :: RandAffineGrid
  ra_resampler :: Resample
  ra_do_transform :: bool
  ra_prob :: real
  ra_R :: RandomState

definition RandAffine_randomize :: "RandAffine \<Rightarrow> RandAffine" where
  "RandAffine_randomize self =
     (let (x, R1) = R_rand (ra_R self)
      in self\<lparr>ra_do_transform := (x < ra_prob self), ra_R := R1\<rparr>)"

text \<open>Lines 599 to 603: the grid that \<open>__call__\<close> hands to the resampler.\<close>

definition RandAffine_grid ::
  "utils \<Rightarrow> RandAffine \<Rightarrow> nat list \<Rightarrow> (error + pyarray) \<times> RandAffine" where
  "RandAffine_grid u self spatial_size =
     (let self = RandAffine_randomize self
      in if ra_do_transform self
         then (let (grid, rag) = RandAffineGrid_call u (ra_rand_affine_grid self)
                                   (Some spatial_size) None
               in (grid, self\<lparr>ra_rand_affine_grid := rag\<rparr>))
         else (Inr (Numpy (create_grid u spatial_size)), self))"

definition RandAffine_call ::
  "utils \<Rightarrow> prims \<Rightarrow> RandAffine \<Rightarrow> pyarray \<Rightarrow> nat list \<Rightarrow> interp
     \<Rightarrow> (error + pyarray) \<times> RandAffine" where
  "RandAffine_call u P self img spatial_size mode =
     (let (grid, self) = RandAffine_grid u self spatial_size
      in (ebind grid (\<lambda>grid. fst (Resample_call P (ra_resampler self) img grid mode)), self))"

section \<open>Rand2DElastic\<close>

record Rand2DElastic =
  r2_deform_grid :: RandDeformGrid
  r2_rand_affine_grid :: RandAffineGrid
  r2_resampler :: Resample
  r2_prob :: real
  r2_do_transform :: bool
  r2_R :: RandomState

definition Rand2DElastic_randomize :: "Rand2DElastic \<Rightarrow> Rand2DElastic" where
  "Rand2DElastic_randomize self =
     (let (x, R1) = R_rand (r2_R self)
      in self\<lparr>r2_do_transform := (x < r2_prob self), r2_R := R1\<rparr>)"

text \<open>Lines 664 to 670: the grid that \<open>__call__\<close> hands to the resampler.\<close>

definition Rand2DElastic_grid ::
  "utils \<Rightarrow> prims \<Rightarrow> Rand2DElastic \<Rightarrow> nat list \<Rightarrow> (error + pyarray) \<times> Rand2DElastic" where
  "Rand2DElastic_grid u P self spatial_size =
     (let self = Rand2DElastic_randomize self
      in if r2_do_transform self
         then (let (grid, dg) = RandDeformGrid_call u (r2_deform_grid self) spatial_size;
                   self = self\<lparr>r2_deform_grid := dg\<rparr>
               in case grid of
                    Inl e \<Rightarrow> (Inl e, self)
                  | Inr grid \<Rightarrow>
                      (let (grid, rag) = RandAffineGrid_call u (r2_rand_affine_grid self)
                                           None (Some grid);
                           self = self\<lparr>r2_rand_affine_grid := rag\<rparr>
                       in (ebind grid (\<lambda>grid.
                           ebind (interpolate_bicubic P (contents grid) spatial_size) (\<lambda>g.
                           Inr (Tensor (device_of grid) g))), self)))
         else (Inr (Numpy (create_grid u spatial_size)), self))"

definition Rand2DElastic_call ::
  "utils \<Rightarrow> prims \<Rightarrow> Rand2DElastic \<Rightarrow> pyarray \<Rightarrow> nat list \<Rightarrow> interp
     \<Rightarrow> (error + pyarray) \<times> Rand2DElastic" where
  "Rand2DElastic_call u P self img spatial_size mode =
     (let (grid, self) = Rand2DElastic_grid u P self spatial_size
      in (ebind grid (\<lambda>grid. fst (Resample_call P (r2_resampler self) img grid mode)), self))"

section \<open>Rand3DElastic\<close>

record Rand3DElastic =
  r3_rand_affine_grid :: RandAffineGrid
  r3_resampler :: Resample
  sigma_range :: "real \<times> real"
  magnitude_range :: "real \<times> real"
  r3_prob :: real
  r3_do_transform :: bool
  rand_offset :: "real list list option"
  r3_magnitude :: real
  sigma :: real
  r3_R :: RandomState

text \<open>
  \<open>randomize(grid_size)\<close>, lines 726 to 731: the decision, the offset field of shape
  \<open>[3] + grid_size\<close> when the decision is taken, the magnitude, the sigma.
\<close>

definition Rand3DElastic_randomize :: "Rand3DElastic \<Rightarrow> nat list \<Rightarrow> Rand3DElastic" where
  "Rand3DElastic_randomize self grid_size =
     (let (x, R1) = R_rand (r3_R self);
          self = self\<lparr>r3_do_transform := (x < r3_prob self), r3_R := R1\<rparr>;
          self = (if r3_do_transform self
                  then (let (offs, R2) = R_uniform_size (- 1) 1 (3 * prod_list grid_size)
                                           (r3_R self)
                        in self\<lparr>rand_offset := Some (chunks 3 (prod_list grid_size) offs),
                                 r3_R := R2\<rparr>)
                  else self);
          (mag, R3) = R_uniform (fst (magnitude_range self)) (snd (magnitude_range self))
                        (r3_R self);
          self = self\<lparr>r3_magnitude := mag, r3_R := R3\<rparr>;
          (sig, R4) = R_uniform (fst (sigma_range self)) (snd (sigma_range self)) (r3_R self)
      in self\<lparr>sigma := sig, r3_R := R4\<rparr>)"

text \<open>
  Lines 743 and 744, from index \<open>i\<close> on: \<open>grid[i] += gaussian_filter(self.rand_offset[i],
  self.sigma, mode='constant', cval=0) * self.magnitude\<close> for \<open>i\<close> below 3. The filtered
  field has the shape of the offset field; a grid row of another shape is not added to.
\<close>

fun perturb_rows ::
  "prims \<Rightarrow> nat list \<Rightarrow> real list list \<Rightarrow> real \<Rightarrow> real \<Rightarrow> nat list \<Rightarrow> ndarray \<Rightarrow> error + ndarray" where
  "perturb_rows P grid_size offs sig mag [] grid = Inr grid"
| "perturb_rows P grid_size offs sig mag (i # is) grid =
     (if \<not> i < length (rows grid) \<or> \<not> i < length offs then Inl IndexError
      else if axes grid \<noteq> grid_size then Inl ValueError
      else perturb_rows P grid_size offs sig mag is
             (grid\<lparr>rows := (rows grid)[i :=
                 map2 (\<lambda>g x. fadd g (Fin (x * mag))) (rows grid ! i)
                      (gaussian_filter P grid_size (offs ! i) sig)]\<rparr>))"

text \<open>Lines 740 to 745: the grid that \<open>__call__\<close> hands to the resampler.\<close>

definition Rand3DElastic_grid ::
  "utils \<Rightarrow> prims \<Rightarrow> Rand3DElastic \<Rightarrow> nat list \<Rightarrow> (error + pyarray) \<times> Rand3DElastic" where
  "Rand3DElastic_grid u P self spatial_size =
     (let self = Rand3DElastic_randomize self spatial_size;
          grid = create_grid u spatial_size
      in if r3_do_transform self
         then (case rand_offset self of
                 None \<Rightarrow> (Inl TypeError, self)
               | Some offs \<Rightarrow>
                   (case perturb_rows P spatial_size offs (sigma self) (r3_magnitude self)
                           [0, 1, 2] grid of
                      Inl e \<Rightarrow> (Inl e, self)
                    | Inr grid \<Rightarrow>
                        (let (grid, rag) = RandAffineGrid_call u (r3_rand_affine_grid self)
                                             None (Some (Numpy grid))
                         in (grid, self\<lparr>r3_rand_affine_grid := rag\<rparr>))))
         else (Inr (Numpy grid), self))"

definition Rand3DElastic_call ::
  "utils \<Rightarrow> prims \<Rightarrow> Rand3DElastic \<Rightarrow> pyarray \<Rightarrow> nat list \<Rightarrow> interp
     \<Rightarrow> (error + pyarray) \<times> Rand3DElastic" where
  "Rand3DElastic_call u P self img spatial_size mode =
     (let (grid, self) = Rand3DElastic_grid u P self spatial_size
      in (ebind grid (\<lambda>grid. fst (Resample_call P (r3_resampler self) img grid mode)), self))"

section \<open>The sampling law in closed form\<close>

text \<open>
  The entries of a range that are not \<open>None\<close>, in sequence order, and the values the spec
  gives them: the entry \<open>f\<close> at place \<open>k\<close> among them receives \<open>uniform(-f, f)\<close> from the
  draw at position \<open>p + k\<close> of the source.
\<close>

fun present :: "'a option list \<Rightarrow> 'a list" where
  "present [] = []"
| "present (None # fs) = present fs"
| "present (Some f # fs) = f # present fs"

fun sampled :: "RandomState \<Rightarrow> nat \<Rightarrow> real list \<Rightarrow> real list" where
  "sampled R p [] = []"
| "sampled R p (f # fs) = fst (R_uniform (- f) f (R\<lparr>pos := p\<rparr>)) # sampled R (p + 1) fs"

section \<open>Example objects\<close>

text \<open>
  The primitives used in the examples: a sample at a non-finite coordinate and a cast
  of a non-finite or too large value are NaN, integer tensors divide exactly, and
  bicubic interpolation and the Gaussian filter, which no example reaches, are stubs.
\<close>

definition example_prims :: prims where
  "example_prims =
     \<lparr>nonfinite_sample = (\<lambda>pad mode sizes chan pt. NaN),
      interpolate_bicubic = (\<lambda>g spatial_size. Inl RuntimeError),
      gaussian_filter = (\<lambda>sizes xs sigma. []),
      cast_undefined = (\<lambda>x. NaN),
      integer_divide = (\<lambda>g. Inr (homogeneous_divide g))\<rparr>"

definition example_R :: RandomState where
  "example_R = \<lparr>unit_samples = (\<lambda>n. 1 / 4), normal_samples = (\<lambda>n. 1), pos = 0\<rparr>"

definition example_rand_affine_grid :: RandAffineGrid where
  "example_rand_affine_grid =
     \<lparr>rotate_range = [Some 1, None], shear_range = [None],
      translate_range = [Some 2, Some 2], scale_range = [Some 0, Some 0],
      rag_rotate_params = PNone, rag_shear_params = PNone,
      rag_translate_params = PNone, rag_scale_params = PNone,
      rag_as_tensor_output = True, rag_device = None, rag_R = example_R\<rparr>"

definition example_resampler :: Resample where
  "example_resampler = \<lparr>padding_mode = Zeros, rs_as_tensor_output = False, rs_device = None\<rparr>"

definition example_rand_3d_elastic :: Rand3DElastic where
  "example_rand_3d_elastic =
     \<lparr>r3_rand_affine_grid = example_rand_affine_grid, r3_resampler = example_resampler,
      sigma_range = (1, 5), magnitude_range = (2, 6), r3_prob = 1 / 2,
      r3_do_transform = False, rand_offset = None, r3_magnitude = 1, sigma = 1,
      r3_R = example_R\<rparr>"

definition example_rand_affine :: RandAffine where
  "example_rand_affine =
     \<lparr>ra_rand_affine_grid = example_rand_affine_grid, ra_resampler = example_resampler,
      ra_do_transform = False, ra_prob = 0, ra_R = example_R\<rparr>"

definition example_deform_grid :: RandDeformGrid where
  "example_deform_grid =
     \<lparr>spacing = [1, 1], magnitude = (0, 0), rand_mag = 1, random_offset = [],
      rdg_as_tensor_output = True, rdg_device = None, rdg_R = example_R\<rparr>"

definition example_rand_2d_elastic :: Rand2DElastic where
  "example_rand_2d_elastic =
     \<lparr>r2_deform_grid = example_deform_grid, r2_rand_affine_grid = example_rand_affine_grid,
      r2_resampler = example_resampler, r2_prob = 0, r2_do_transform = False,
      r2_R = example_R\<rparr>"

definition example_image_2x2 :: pyarray where
  "example_image_2x2 = Numpy \<lparr>axes = [2, 2], rows = [[Fin 0, Fin 1, Fin 2, Fin 3]]\<rparr>"

definition example_image_3x3 :: pyarray where
  "example_image_3x3 =
     Numpy \<lparr>axes = [3, 3],
            rows = [[Fin 0, Fin 1, Fin 2, Fin 3, Fin 4, Fin 5, Fin 6, Fin 7, Fin 8]]\<rparr>"

definition example_ones_4x4 :: pyarray where
  "example_ones_4x4 = Numpy \<lparr>axes = [4, 4], rows = [replicate 16 (Fin 1)]\<rparr>"

definition example_int_grid :: ndarray where
  "example_int_grid =
     \<lparr>axes = [2, 2],
      rows = [[Fin (- 1), Fin (- 1), Fin 1, Fin 1], [Fin (- 1), Fin 1, Fin (- 1), Fin 1],
              [Fin 1, Fin 1, Fin 1, Fin 1]]\<rparr>"



section \<open>Properties of the matrices\<close>

















section \<open>Properties of the random draws\<close>

lemma sampled_pos: "sampled (R\<lparr>pos := q\<rparr>) p fs = sampled R p fs"
  by (induction fs arbitrary: p) (simp_all add: R_uniform_def)

lemma draw_uniform_closed:
  "draw_uniform fs R =
     (sampled R (pos R) (present fs), R\<lparr>pos := pos R + length (present fs)\<rparr>)"
proof (induction fs arbitrary: R)
  case Nil
  show ?case by simp
next
  case (Cons a fs)
  show ?case
  proof (cases a)
    case None
    then show ?thesis using Cons by simp
  next
    case (Some f)
    then show ?thesis
      by (simp add: Cons R_uniform_def sampled_pos)
  qed
qed

lemma draw_scale_closed:
  "draw_scale fs R =
     (map (\<lambda>x. x + 1) (sampled R (pos R) (present fs)),
      R\<lparr>pos := pos R + length (present fs)\<rparr>)"
proof (induction fs arbitrary: R)
  case Nil
  show ?case by simp
next
  case (Cons a fs)
  show ?case
  proof (cases a)
    case None
    then show ?thesis using Cons by simp
  next
    case (Some f)
    then show ?thesis
      by (simp add: Cons R_uniform_def sampled_pos)
  qed
qed

lemma sampled_zero: "set fs \<subseteq> {0} \<Longrightarrow> sampled R p fs = replicate (length fs) 0"
  by (induction fs arbitrary: p) (simp_all add: R_uniform_def)

lemma present_all_some:
  "\<forall>f\<in>set fs. f = Some c \<Longrightarrow> present fs = replicate (length fs) c"
  by (induction fs) auto


text \<open>
  Claim C5. \<open>RandAffineGrid.randomize\<close> gives every entry \<open>f\<close> of a range that is not
  \<open>None\<close>, in sequence order, one draw \<open>uniform(-f, f)\<close>, and adds \<open>1.0\<close> to it for the
  scale range; \<open>None\<close> entries get no draw. The groups draw in the order rotate, shear,
  translate, scale. A scale range whose entries are all \<open>0\<close> gives scale factors that are
  all exactly \<open>1\<close>.
\<close>

theorem RandAffineGrid_randomize_law:
  fixes self :: RandAffineGrid
  defines "R \<equiv> rag_R self"
    and "rs \<equiv> present (rotate_range self)"
    and "ss \<equiv> present (shear_range self)"
    and "ts \<equiv> present (translate_range self)"
    and "cs \<equiv> present (scale_range self)"
  defines "p1 \<equiv> pos R + length rs"
  defines "p2 \<equiv> p1 + length ss"
  defines "p3 \<equiv> p2 + length ts"
  shows "(rotate_range self \<noteq> [] \<longrightarrow>
            rag_rotate_params (RandAffineGrid_randomize self) = PSeq (sampled R (pos R) rs))
       \<and> (shear_range self \<noteq> [] \<longrightarrow>
            rag_shear_params (RandAffineGrid_randomize self) = PSeq (sampled R p1 ss))
       \<and> (translate_range self \<noteq> [] \<longrightarrow>
            rag_translate_params (RandAffineGrid_randomize self) = PSeq (sampled R p2 ts))
       \<and> (scale_range self \<noteq> [] \<longrightarrow>
            rag_scale_params (RandAffineGrid_randomize self)
              = PSeq (map (\<lambda>x. x + 1) (sampled R p3 cs)))
       \<and> pos (rag_R (RandAffineGrid_randomize self)) = p3 + length cs
       \<and> (scale_range self \<noteq> [] \<and> (\<forall>f\<in>set (scale_range self). f = Some 0) \<longrightarrow>
            rag_scale_params (RandAffineGrid_randomize self)
              = PSeq (replicate (length (scale_range self)) 1))"
proof -
  have zero: "(\<forall>f\<in>set (scale_range self). f = Some 0) \<Longrightarrow>
          map (\<lambda>x. x + 1) (sampled R p3 cs) = replicate (length (scale_range self)) 1"
  proof -
    assume a: "\<forall>f\<in>set (scale_range self). f = Some 0"
    have "cs = replicate (length (scale_range self)) 0"
      unfolding cs_def using a by (rule present_all_some)
    then have "sampled R p3 cs = replicate (length (scale_range self)) 0"
      using sampled_zero[of cs R p3] by (metis length_replicate set_replicate_conv_if subset_refl empty_subsetI)
    then show ?thesis by simp
  qed
  have main: "(rotate_range self \<noteq> [] \<longrightarrow>
            rag_rotate_params (RandAffineGrid_randomize self) = PSeq (sampled R (pos R) rs))
       \<and> (shear_range self \<noteq> [] \<longrightarrow>
            rag_shear_params (RandAffineGrid_randomize self) = PSeq (sampled R p1 ss))
       \<and> (translate_range self \<noteq> [] \<longrightarrow>
            rag_translate_params (RandAffineGrid_randomize self) = PSeq (sampled R p2 ts))
       \<and> (scale_range self \<noteq> [] \<longrightarrow>
            rag_scale_params (RandAffineGrid_randomize self)
              = PSeq (map (\<lambda>x. x + 1) (sampled R p3 cs)))
       \<and> pos (rag_R (RandAffineGrid_randomize self)) = p3 + length cs"
    unfolding RandAffineGrid_randomize_def R_def rs_def ss_def ts_def cs_def p1_def p2_def p3_def
    by (simp add: Let_def draw_uniform_closed draw_scale_closed sampled_pos)
  show ?thesis using main zero by simp
qed


theorem RandAffineGrid_randomize_law_witness:
  "rag_rotate_params (RandAffineGrid_randomize example_rand_affine_grid) = PSeq [- 1 / 2]
   \<and> rag_shear_params (RandAffineGrid_randomize example_rand_affine_grid) = PSeq []
   \<and> rag_translate_params (RandAffineGrid_randomize example_rand_affine_grid) = PSeq [- 1, - 1]
   \<and> rag_scale_params (RandAffineGrid_randomize example_rand_affine_grid) = PSeq [1, 1]
   \<and> pos (rag_R (RandAffineGrid_randomize example_rand_affine_grid)) = 5"
  using RandAffineGrid_randomize_law[of example_rand_affine_grid]
  by (simp add: example_rand_affine_grid_def example_R_def R_uniform_def)

lemma Rand3DElastic_grid_state:
  "r3_do_transform (snd (Rand3DElastic_grid u P self s))
     = r3_do_transform (Rand3DElastic_randomize self s)
   \<and> rand_offset (snd (Rand3DElastic_grid u P self s))
     = rand_offset (Rand3DElastic_randomize self s)
   \<and> r3_magnitude (snd (Rand3DElastic_grid u P self s))
     = r3_magnitude (Rand3DElastic_randomize self s)
   \<and> sigma (snd (Rand3DElastic_grid u P self s)) = sigma (Rand3DElastic_randomize self s)
   \<and> r3_R (snd (Rand3DElastic_grid u P self s)) = r3_R (Rand3DElastic_randomize self s)"
  by (simp add: Rand3DElastic_grid_def Let_def case_prod_beta
      split: option.split sum.split)

lemma Rand3DElastic_call_state:
  "snd (Rand3DElastic_call u P self img s mode) = snd (Rand3DElastic_grid u P self s)"
  by (simp add: Rand3DElastic_call_def case_prod_beta)

text \<open>
  Claim C6. Every call of \<open>Rand3DElastic\<close> runs \<open>randomize(spatial_size)\<close> once and draws
  nothing else from its source, and \<open>randomize\<close> draws in a fixed order: the decision at
  the position the source has reached, then, only when the decision is taken, the
  \<open>uniform(-1, 1)\<close> field of shape \<open>(3, *spatial_size)\<close>, then the magnitude from
  \<open>magnitude_range\<close>, then the sigma from \<open>sigma_range\<close>. The magnitude and the sigma are
  drawn on every call; when the field is skipped they follow the decision directly. The
  statement is about the object after \<open>__call__\<close>, whether the call returns or raises.
\<close>

theorem Rand3DElastic_call_draw_order:
  fixes u :: utils and P :: prims and self :: Rand3DElastic and img :: pyarray
    and spatial_size :: "nat list" and mode :: interp
  defines "R \<equiv> r3_R self"
  defines "do \<equiv> (unit_samples R (pos R) < r3_prob self)"
    and "n \<equiv> 3 * prod_list spatial_size"
  defines "q \<equiv> pos R + 1 + (if do then n else 0)"
  defines "after \<equiv> snd (Rand3DElastic_call u P self img spatial_size mode)"
  shows "r3_do_transform after = do
       \<and> rand_offset after
           = (if do then Some (chunks 3 (prod_list spatial_size)
                                 (fst (R_uniform_size (- 1) 1 n (R\<lparr>pos := pos R + 1\<rparr>))))
              else rand_offset self)
       \<and> r3_magnitude after
           = fst (R_uniform (fst (magnitude_range self)) (snd (magnitude_range self))
                    (R\<lparr>pos := q\<rparr>))
       \<and> sigma after
           = fst (R_uniform (fst (sigma_range self)) (snd (sigma_range self))
                    (R\<lparr>pos := q + 1\<rparr>))
       \<and> r3_R after = R\<lparr>pos := q + 2\<rparr>
       \<and> after\<lparr>r3_rand_affine_grid := r3_rand_affine_grid self\<rparr>
           = Rand3DElastic_randomize self spatial_size"
proof -
  have st: "after\<lparr>r3_rand_affine_grid := r3_rand_affine_grid self\<rparr>
              = Rand3DElastic_randomize self spatial_size"
    unfolding after_def Rand3DElastic_call_state
    by (simp add: Rand3DElastic_grid_def Rand3DElastic_randomize_def Let_def case_prod_beta
        split: option.split sum.split)
  have eqs: "r3_do_transform after = r3_do_transform (Rand3DElastic_randomize self spatial_size)"
    "rand_offset after = rand_offset (Rand3DElastic_randomize self spatial_size)"
    "r3_magnitude after = r3_magnitude (Rand3DElastic_randomize self spatial_size)"
    "sigma after = sigma (Rand3DElastic_randomize self spatial_size)"
    "r3_R after = r3_R (Rand3DElastic_randomize self spatial_size)"
    unfolding after_def Rand3DElastic_call_state
    using Rand3DElastic_grid_state[of u P self spatial_size] by simp_all
  have rz: "r3_do_transform (Rand3DElastic_randomize self spatial_size) = do
       \<and> rand_offset (Rand3DElastic_randomize self spatial_size)
           = (if do then Some (chunks 3 (prod_list spatial_size)
                                 (fst (R_uniform_size (- 1) 1 n (R\<lparr>pos := pos R + 1\<rparr>))))
              else rand_offset self)
       \<and> r3_magnitude (Rand3DElastic_randomize self spatial_size)
           = fst (R_uniform (fst (magnitude_range self)) (snd (magnitude_range self))
                    (R\<lparr>pos := q\<rparr>))
       \<and> sigma (Rand3DElastic_randomize self spatial_size)
           = fst (R_uniform (fst (sigma_range self)) (snd (sigma_range self))
                    (R\<lparr>pos := q + 1\<rparr>))
       \<and> r3_R (Rand3DElastic_randomize self spatial_size) = R\<lparr>pos := q + 2\<rparr>"
    unfolding Rand3DElastic_randomize_def R_def do_def n_def q_def
    by (simp add: Let_def R_rand_def R_uniform_def R_uniform_size_def)
  show ?thesis using st eqs rz by simp
qed

section \<open>Properties of the orchestrators\<close>

lemma rand_lt_zero: "0 \<le> unit_samples R (pos R) \<Longrightarrow> \<not> fst (R_rand R) < 0"
  by (simp add: R_rand_def)

text \<open>
  Claim C4. \<open>RandAffine\<close>, \<open>Rand2DElastic\<close> and \<open>Rand3DElastic\<close> constructed with
  \<open>prob = 0\<close> hand the resampler the grid of \<open>create_grid(spatial_size)\<close> on every call,
  whatever their range settings: the decision draw, a sample of \<open>[0, 1)\<close>, is not below
  \<open>0\<close>, the randomised affine grid is not called and its state is not touched, and the
  result is that of resampling on that grid. \<open>RandAffineGrid.__init__\<close> takes no \<open>prob\<close>,
  so no \<open>RandAffineGrid\<close> is constructed with \<open>prob = 0\<close>.
\<close>

theorem prob_zero_identity_grid:
  assumes "ra_prob a = 0" and "0 \<le> unit_samples (ra_R a) (pos (ra_R a))"
    and "r2_prob b = 0" and "0 \<le> unit_samples (r2_R b) (pos (r2_R b))"
    and "r3_prob c = 0" and "0 \<le> unit_samples (r3_R c) (pos (r3_R c))"
  shows "fst (RandAffine_grid u a spatial_size) = Inr (Numpy (create_grid u spatial_size))
       \<and> ra_rand_affine_grid (snd (RandAffine_grid u a spatial_size)) = ra_rand_affine_grid a
       \<and> fst (RandAffine_call u P a img spatial_size mode)
           = fst (Resample_call P (ra_resampler a) img
                    (Numpy (create_grid u spatial_size)) mode)
       \<and> fst (Rand2DElastic_grid u P b spatial_size) = Inr (Numpy (create_grid u spatial_size))
       \<and> r2_rand_affine_grid (snd (Rand2DElastic_grid u P b spatial_size))
           = r2_rand_affine_grid b
       \<and> fst (Rand2DElastic_call u P b img spatial_size mode)
           = fst (Resample_call P (r2_resampler b) img
                    (Numpy (create_grid u spatial_size)) mode)
       \<and> fst (Rand3DElastic_grid u P c spatial_size) = Inr (Numpy (create_grid u spatial_size))
       \<and> r3_rand_affine_grid (snd (Rand3DElastic_grid u P c spatial_size))
           = r3_rand_affine_grid c
       \<and> fst (Rand3DElastic_call u P c img spatial_size mode)
           = fst (Resample_call P (r3_resampler c) img
                    (Numpy (create_grid u spatial_size)) mode)"
proof -
  have a: "RandAffine_grid u a spatial_size
             = (Inr (Numpy (create_grid u spatial_size)), RandAffine_randomize a)"
    and a': "\<not> ra_do_transform (RandAffine_randomize a)"
    using assms(1,2)
    by (simp_all add: RandAffine_grid_def RandAffine_randomize_def R_rand_def Let_def)
  have b: "Rand2DElastic_grid u P b spatial_size
             = (Inr (Numpy (create_grid u spatial_size)), Rand2DElastic_randomize b)"
    using assms(3,4)
    by (simp add: Rand2DElastic_grid_def Rand2DElastic_randomize_def R_rand_def Let_def)
  have c: "Rand3DElastic_grid u P c spatial_size
             = (Inr (Numpy (create_grid u spatial_size)),
                Rand3DElastic_randomize c spatial_size)"
    using assms(5,6)
    by (simp add: Rand3DElastic_grid_def Rand3DElastic_randomize_def R_rand_def
        R_uniform_def Let_def)
  have ra: "ra_rand_affine_grid (RandAffine_randomize a) = ra_rand_affine_grid a"
    and rr: "ra_resampler (RandAffine_randomize a) = ra_resampler a"
    by (simp_all add: RandAffine_randomize_def R_rand_def Let_def)
  have rb: "r2_rand_affine_grid (Rand2DElastic_randomize b) = r2_rand_affine_grid b"
    and rbr: "r2_resampler (Rand2DElastic_randomize b) = r2_resampler b"
    by (simp_all add: Rand2DElastic_randomize_def R_rand_def Let_def)
  have rc: "r3_rand_affine_grid (Rand3DElastic_randomize c spatial_size) = r3_rand_affine_grid c"
    and rcr: "r3_resampler (Rand3DElastic_randomize c spatial_size) = r3_resampler c"
    by (simp_all add: Rand3DElastic_randomize_def R_rand_def R_uniform_def
        R_uniform_size_def Let_def)
  show ?thesis
    by (simp add: a b c ra rr rb rbr rc rcr RandAffine_call_def Rand2DElastic_call_def
        Rand3DElastic_call_def ebind_def)
qed


theorem prob_zero_identity_grid_witness:
  "fst (RandAffine_grid example_utils example_rand_affine [2, 2])
     = Inr (Numpy (spec_create_grid [2, 2]))
   \<and> fst (Rand2DElastic_grid example_utils example_prims example_rand_2d_elastic [2, 2])
     = Inr (Numpy (spec_create_grid [2, 2]))
   \<and> fst (Rand3DElastic_grid example_utils example_prims
            (example_rand_3d_elastic\<lparr>r3_prob := 0\<rparr>) [2, 2, 2])
     = Inr (Numpy (spec_create_grid [2, 2, 2]))"
  using prob_zero_identity_grid[of example_rand_affine example_rand_2d_elastic
      "example_rand_3d_elastic\<lparr>r3_prob := 0\<rparr>" example_utils "[2, 2]"]
    prob_zero_identity_grid[of example_rand_affine example_rand_2d_elastic
      "example_rand_3d_elastic\<lparr>r3_prob := 0\<rparr>" example_utils "[2, 2, 2]"]
  by (simp add: example_rand_affine_def example_rand_2d_elastic_def
      example_rand_3d_elastic_def example_R_def example_utils_def)

section \<open>Properties of the deformation grid\<close>

lemma fadd_zero_right: "fadd x (Fin 0) = x"
  by (cases x) simp_all

lemma chunks_nth_map:
  assumes "i < n"
  shows "chunks n m (map f [0..<n * m]) ! i = map (\<lambda>p. f (i * m + p)) [0..<m]"
proof -
  have le: "i * m + m \<le> n * m"
  proof -
    have "Suc i \<le> n" using assms by simp
    then have "Suc i * m \<le> n * m" by (rule mult_le_mono1)
    then show ?thesis by (simp add: add.commute)
  qed
  have "take m (drop (i * m) (map f [0..<n * m])) = map f (take m [i * m..<n * m])"
    by (simp add: drop_map take_map)
  also have "take m [i * m..<n * m] = [i * m..<i * m + m]"
    using le by (simp add: take_upt)
  also have "map f [i * m..<i * m + m] = map (\<lambda>p. f (i * m + p)) [0..<m]"
    by (intro nth_equalityI) simp_all
  finally show ?thesis using assms by (simp add: chunks_def)
qed

lemma length_chunks: "length (chunks n m xs) = n"
  by (simp add: chunks_def)

lemma map2_fadd_row:
  assumes "length r = m"
  shows "map2 fadd r (map g [0..<m]) = map (\<lambda>p. fadd (r ! p) (g p)) [0..<m]"
  using assms by (intro nth_equalityI) simp_all


lemma deform_rows:
  assumes wf: "wf_array cg" and len: "length (rows cg) = D + 1"
  shows "map2 (\<lambda>l r. map2 fadd l r) (take D (rows cg))
           (map (map (\<lambda>x. Fin (mag * x))) (chunks D (prod_list (axes cg))
              (map f [0..<D * prod_list (axes cg)])))
         = map (\<lambda>i. map (\<lambda>p. fadd (rows cg ! i ! p)
                                  (Fin (mag * f (i * prod_list (axes cg) + p))))
                        [0..<prod_list (axes cg)]) [0..<D]"
    (is "?L = ?R")
proof (rule nth_equalityI)
  show "length ?L = length ?R"
    using len by (simp add: length_chunks)
next
  fix i
  assume "i < length ?L"
  then have i: "i < D" using len by (simp add: length_chunks)
  have r: "length (rows cg ! i) = prod_list (axes cg)"
    using wf i len by (simp add: wf_array_def list_all_length)
  have "?L ! i
        = map2 fadd (rows cg ! i)
            (map (\<lambda>p. Fin (mag * f (i * prod_list (axes cg) + p))) [0..<prod_list (axes cg)])"
    using i len by (simp add: length_chunks chunks_nth_map o_def)
  also have "\<dots> = map (\<lambda>p. fadd (rows cg ! i ! p)
                              (Fin (mag * f (i * prod_list (axes cg) + p))))
                    [0..<prod_list (axes cg)]"
    using r by (rule map2_fadd_row)
  finally show "?L ! i = ?R ! i"
    using i by simp
qed

lemma drop_last_row: "length xs = D + 1 \<Longrightarrow> drop D xs = [xs ! D]"
  by (simp add: Cons_nth_drop_Suc[symmetric])

lemma rows_unchanged:
  assumes wf: "wf_array cg" and len: "length (rows cg) = D + 1"
  shows "map (\<lambda>i. map (\<lambda>p. rows cg ! i ! p) [0..<prod_list (axes cg)]) [0..<D] @ [rows cg ! D]
         = rows cg" (is "?L = ?R")
proof (rule nth_equalityI)
  show "length ?L = length ?R"
    using len by simp
next
  fix i
  assume "i < length ?L"
  then have i: "i < D + 1" by simp
  show "?L ! i = ?R ! i"
  proof (cases "i < D")
    case True
    have "length (rows cg ! i) = prod_list (axes cg)"
      using wf True len by (simp add: wf_array_def list_all_length)
    then have "map (\<lambda>p. rows cg ! i ! p) [0..<prod_list (axes cg)] = rows cg ! i"
      using map_nth[of "rows cg ! i"] by simp
    then show ?thesis using True by (simp add: nth_append)
  next
    case False
    then have "i = D" using i by simp
    then show ?thesis by (simp add: nth_append)
  qed
qed


lemma rows_update_conv: "g\<lparr>rows := X\<rparr> = \<lparr>axes = axes g, rows = X\<rparr>"
  by (cases g) simp

text \<open>
  Claim C8. For a control grid of \<open>D + 1\<close> rows over \<open>D\<close> axes, \<open>RandDeformGrid\<close> returns
  the control grid with \<open>magnitude * offset\<close> added to its first \<open>D\<close> rows and its last row
  as it was. The offset is the standard-normal field drawn first, row by row; the
  magnitude is one scalar, \<open>uniform(magnitude_range[0], magnitude_range[1])\<close>, drawn after
  the field, and lies in \<open>[magnitude_range[0], magnitude_range[1])\<close> when that interval is
  not empty. With \<open>magnitude_range = (0, 0)\<close> the control grid is returned as it was.
\<close>

theorem RandDeformGrid_call_law:
  fixes u :: utils and self :: RandDeformGrid and spatial_size :: "nat list"
  defines "cg \<equiv> create_control_grid u spatial_size (spacing self)"
    and "D \<equiv> length spatial_size"
    and "R \<equiv> rdg_R self"
  defines "N \<equiv> prod_list (axes cg)"
  defines "mag \<equiv> fst (R_uniform (fst (magnitude self)) (snd (magnitude self))
                         (R\<lparr>pos := pos R + D * N\<rparr>))"
  defines "wrap \<equiv> (\<lambda>g. if rdg_as_tensor_output self then torch_tensor (rdg_device self) g
                          else Numpy g)"
  assumes wf: "wf_array cg" and len: "length (rows cg) = D + 1" and ax: "length (axes cg) = D"
  shows "fst (RandDeformGrid_call u self spatial_size)
           = Inr (wrap \<lparr>axes = axes cg,
                        rows = map (\<lambda>i. map (\<lambda>p. fadd (rows cg ! i ! p)
                                     (Fin (mag * normal_samples R (pos R + (i * N + p)))))
                                   [0..<N]) [0..<D]
                               @ [rows cg ! D]\<rparr>)
       \<and> rand_mag (snd (RandDeformGrid_call u self spatial_size)) = mag
       \<and> (fst (magnitude self) < snd (magnitude self)
            \<and> 0 \<le> unit_samples R (pos R + D * N) \<and> unit_samples R (pos R + D * N) < 1
          \<longrightarrow> fst (magnitude self) \<le> mag \<and> mag < snd (magnitude self))
       \<and> (magnitude self = (0, 0)
          \<longrightarrow> fst (RandDeformGrid_call u self spatial_size) = Inr (wrap cg))"
proof -
  let ?f = "\<lambda>k. normal_samples R (pos R + k)"
  let ?self = "RandDeformGrid_randomize self (axes cg)"
  have ro: "random_offset ?self = chunks D N (map ?f [0..<D * N])"
    and rm: "rand_mag ?self = mag"
    and ot: "rdg_as_tensor_output ?self = rdg_as_tensor_output self"
    and od: "rdg_device ?self = rdg_device self"
    unfolding RandDeformGrid_randomize_def mag_def R_def N_def
    using ax by (simp_all add: R_normal_def R_uniform_def Let_def)
  have k: "min D (length (rows cg)) = D" using len by simp
  have rows: "map2 (\<lambda>l r. map2 fadd l r) (take D (rows cg))
                (map (map (\<lambda>x. Fin (mag * x))) (chunks D N (map ?f [0..<D * N])))
              = map (\<lambda>i. map (\<lambda>p. fadd (rows cg ! i ! p) (Fin (mag * ?f (i * N + p))))
                             [0..<N]) [0..<D]"
    unfolding N_def using wf len by (rule deform_rows)
  have lens: "length (map (map (\<lambda>x. Fin (mag * x))) (chunks D N (map ?f [0..<D * N])))
              = length (take D (rows cg))"
    using len by (simp add: length_chunks)
  have main: "fst (RandDeformGrid_call u self spatial_size)
           = Inr (wrap \<lparr>axes = axes cg,
                        rows = map (\<lambda>i. map (\<lambda>p. fadd (rows cg ! i ! p)
                                     (Fin (mag * ?f (i * N + p)))) [0..<N]) [0..<D]
                               @ [rows cg ! D]\<rparr>)"
    unfolding RandDeformGrid_call_def Let_def cg_def[symmetric] D_def[symmetric]
    using lens rows len
    by (simp add: k ro rm ot od iadd_rows_def ebind_def wrap_def drop_last_row rows_update_conv)
  have snd_eq: "snd (RandDeformGrid_call u self spatial_size) = ?self"
    unfolding RandDeformGrid_call_def Let_def cg_def[symmetric] by simp
  have rng: "fst (magnitude self) < snd (magnitude self)
            \<and> 0 \<le> unit_samples R (pos R + D * N) \<and> unit_samples R (pos R + D * N) < 1
          \<Longrightarrow> fst (magnitude self) \<le> mag \<and> mag < snd (magnitude self)"
  proof -
    assume a: "fst (magnitude self) < snd (magnitude self)
            \<and> 0 \<le> unit_samples R (pos R + D * N) \<and> unit_samples R (pos R + D * N) < 1"
    let ?u = "unit_samples R (pos R + D * N)"
    let ?w = "snd (magnitude self) - fst (magnitude self)"
    have m: "mag = fst (magnitude self) + ?w * ?u"
      by (simp add: mag_def R_uniform_def)
    have w: "0 < ?w" using a by simp
    have "0 \<le> ?w * ?u" using w a by simp
    moreover have "?w * ?u < ?w * 1" using w a by (intro mult_strict_left_mono) simp_all
    ultimately show ?thesis using m by simp
  qed
  have zero: "magnitude self = (0, 0)
          \<Longrightarrow> fst (RandDeformGrid_call u self spatial_size) = Inr (wrap cg)"
  proof -
    assume z: "magnitude self = (0, 0)"
    then have "mag = 0" by (simp add: mag_def R_uniform_def)
    then have "fst (RandDeformGrid_call u self spatial_size)
           = Inr (wrap \<lparr>axes = axes cg,
                        rows = map (\<lambda>i. map (\<lambda>p. rows cg ! i ! p) [0..<N]) [0..<D]
                               @ [rows cg ! D]\<rparr>)"
      using main by (simp add: fadd_zero_right)
    also have "map (\<lambda>i. map (\<lambda>p. rows cg ! i ! p) [0..<N]) [0..<D] @ [rows cg ! D] = rows cg"
      unfolding N_def using wf len by (rule rows_unchanged)
    finally show ?thesis by (cases cg) simp
  qed
  show ?thesis using main snd_eq rm rng zero by simp
qed


lemma grid22:
  "spec_create_grid [2, 2]
     = \<lparr>axes = [2, 2],
        rows = [[Fin (- (1 / 2)), Fin (- (1 / 2)), Fin (1 / 2), Fin (1 / 2)],
                [Fin (- (1 / 2)), Fin (1 / 2), Fin (- (1 / 2)), Fin (1 / 2)],
                [Fin 1, Fin 1, Fin 1, Fin 1]]\<rparr>"
  by code_simp

theorem RandDeformGrid_call_law_witness:
  "fst (RandDeformGrid_call
          (example_utils\<lparr>create_control_grid := (\<lambda>spatial_size spacing. spec_create_grid spatial_size)\<rparr>)
          example_deform_grid [2, 2])
     = Inr (Tensor CPU (spec_create_grid [2, 2]))
   \<and> fst (RandDeformGrid_call
          (example_utils\<lparr>create_control_grid := (\<lambda>spatial_size spacing. spec_create_grid spatial_size)\<rparr>)
          (example_deform_grid\<lparr>magnitude := (1, 3)\<rparr>) [2, 2])
     = Inr (Tensor CPU
         \<lparr>axes = [2, 2],
          rows = [[Fin 1, Fin 1, Fin 2, Fin 2], [Fin 1, Fin 2, Fin 1, Fin 2],
                  [Fin 1, Fin 1, Fin 1, Fin 1]]\<rparr>)"
  using RandDeformGrid_call_law[where u = "example_utils\<lparr>create_control_grid := (\<lambda>spatial_size spacing. spec_create_grid spatial_size)\<rparr>"
      and self = example_deform_grid and spatial_size = "[2, 2]"]
    RandDeformGrid_call_law[where u = "example_utils\<lparr>create_control_grid := (\<lambda>spatial_size spacing. spec_create_grid spatial_size)\<rparr>"
      and self = "example_deform_grid\<lparr>magnitude := (1, 3)\<rparr>" and spatial_size = "[2, 2]"]
  by (simp add: example_deform_grid_def example_utils_def example_R_def grid22 wf_array_def
      torch_tensor_def R_uniform_def upt_conv_Cons del: upt_Suc)

section \<open>Properties of Resample: the caller's grid\<close>

lemma normalize_rows_length: "length (snd (normalize_rows P b i dims g)) = length g"
  by (induction dims arbitrary: i g) simp_all


lemma normalize_rows_nth:
  assumes "j < length g"
  shows "snd (normalize_rows P b i dims g) ! j
         = (if i \<le> j \<and> j < i + length dims
            then store_row P b (normalize_row (dims ! (j - i)) (g ! j))
            else g ! j)"
  using assms
proof (induction dims arbitrary: i g)
  case Nil
  then show ?case by auto
next
  case (Cons d dims)
  show ?case
  proof (cases "i < length g")
    case False
    then show ?thesis using Cons.prems by simp
  next
    case i: True
    let ?g = "g[i := store_row P b (normalize_row d (g ! i))]"
    have "snd (normalize_rows P b i (d # dims) g) ! j
          = snd (normalize_rows P b (i + 1) dims ?g) ! j"
      using i by simp
    also have "\<dots> = (if i + 1 \<le> j \<and> j < i + 1 + length dims
                        then store_row P b (normalize_row (dims ! (j - (i + 1))) (?g ! j))
                        else ?g ! j)"
      using Cons.prems by (intro Cons.IH) simp
    also have "\<dots> = (if i \<le> j \<and> j < i + length (d # dims)
                        then store_row P b (normalize_row ((d # dims) ! (j - i)) (g ! j))
                        else g ! j)"
      using i Cons.prems by (cases "j = i") (auto simp: nth_Cons')
    finally show ?thesis .
  qed
qed

lemma normalize_rows_closed:
  "snd (normalize_rows P b 0 dims g)
     = map (\<lambda>i. if i < length dims then store_row P b (normalize_row (dims ! i) (g ! i))
                  else g ! i)
           [0..<length g]" (is "?L = ?R")
proof (rule nth_equalityI)
  show "length ?L = length ?R" by (simp add: normalize_rows_length)
next
  fix j
  assume "j < length ?L"
  then have j: "j < length g" by (simp add: normalize_rows_length)
  show "?L ! j = ?R ! j"
    using normalize_rows_nth[of j g P b 0 dims] j by simp
qed

lemma grid_after_numpy:
  "snd (Resample_call P self img (Numpy g) mode) = Numpy g"
  "snd (Resample_call P self img (IntNumpy g) mode) = IntNumpy g"
  by (simp_all add: Resample_call_def Let_def case_prod_beta)

lemma grid_after_tensor:
  assumes "rs_device self = None \<or> rs_device self = Some d"
  shows "snd (Resample_call P self img (Tensor d g) mode)
         = Tensor d \<lparr>axes = axes g,
                      rows = snd (normalize_rows P False 0 (axes (contents img)) (rows g))\<rparr>"
    and "snd (Resample_call P self img (IntTensor d g) mode)
         = IntTensor d \<lparr>axes = axes g,
                         rows = snd (normalize_rows P True 0 (axes (contents img)) (rows g))\<rparr>"
  using assms by (auto simp: Resample_call_def Let_def case_prod_beta rows_update_conv)

lemma grid_after_moved:
  assumes "rs_device self = Some d'" and "d' \<noteq> d"
  shows "snd (Resample_call P self img (Tensor d g) mode) = Tensor d g"
    and "snd (Resample_call P self img (IntTensor d g) mode) = IntTensor d g"
  using assms by (simp_all add: Resample_call_def Let_def case_prod_beta)

lemma rows_differ:
  fixes g :: ndarray and n :: nat
  defines "new \<equiv> (\<lambda>w. map (\<lambda>i. if i < n then w i else rows g ! i) [0..<length (rows g)])"
  shows "(\<lparr>axes = axes g, rows = new w\<rparr> \<noteq> g)
           = (\<exists>i<n. i < length (rows g) \<and> w i \<noteq> rows g ! i)"
proof -
  have len: "length (new w) = length (rows g)"
    by (simp add: new_def)
  have nth: "new w ! i = (if i < n then w i else rows g ! i)" if "i < length (rows g)" for i
    using that by (simp add: new_def)
  have "(new w = rows g) = (\<forall>i<length (rows g). new w ! i = rows g ! i)"
    using len by (simp add: list_eq_iff_nth_eq)
  also have "\<dots> = (\<forall>i<n. i < length (rows g) \<longrightarrow> w i = rows g ! i)"
  proof
    assume h: "\<forall>i<length (rows g). new w ! i = rows g ! i"
    show "\<forall>i<n. i < length (rows g) \<longrightarrow> w i = rows g ! i"
    proof (intro allI impI)
      fix i assume i: "i < n" and l: "i < length (rows g)"
      show "w i = rows g ! i" using h nth[OF l] i l by simp
    qed
  next
    assume h: "\<forall>i<n. i < length (rows g) \<longrightarrow> w i = rows g ! i"
    show "\<forall>i<length (rows g). new w ! i = rows g ! i"
    proof (intro allI impI)
      fix i assume l: "i < length (rows g)"
      show "new w ! i = rows g ! i"
        using h nth[OF l] l by (cases "i < n") simp_all
    qed
  qed
  finally have "(new w = rows g) = (\<forall>i<n. i < length (rows g) \<longrightarrow> w i = rows g ! i)" .
  moreover have "(\<lparr>axes = axes g, rows = new w\<rparr> = g) = (new w = rows g)"
    by (cases g) auto
  ultimately show ?thesis by auto
qed

text \<open>
  Claim C9, as amended. A grid passed as a tensor that already lives on the device in use
  is written in place: when the call ends, each row \<open>i\<close> it has below the image's spatial
  rank \<open>D\<close> holds the normalised values \<open>2 * grid[i] / (dim_i - 1)\<close> in the tensor's dtype,
  so truncated toward zero in an integer tensor; the other rows are as they were, and the
  grid differs from what the caller passed exactly when one of these rows is not equal
  to the values written into it. A grid passed as a numpy array, or as a tensor that is
  moved to another device, is left unchanged.
\<close>

theorem Resample_grid_after:
  fixes P :: prims and img :: pyarray and g :: ndarray
  defines "dims \<equiv> axes (contents img)"
  defines "float_row \<equiv> (\<lambda>i. normalize_row (dims ! i) (rows g ! i))"
  defines "int_row \<equiv> (\<lambda>i. map (to_int64 P) (normalize_row (dims ! i) (rows g ! i)))"
  shows "snd (Resample_call P self img (Numpy g) mode) = Numpy g
       \<and> snd (Resample_call P self img (IntNumpy g) mode) = IntNumpy g
       \<and> (rs_device self = Some d' \<and> d' \<noteq> d
            \<longrightarrow> snd (Resample_call P self img (Tensor d g) mode) = Tensor d g
              \<and> snd (Resample_call P self img (IntTensor d g) mode) = IntTensor d g)
       \<and> (rs_device self = None \<or> rs_device self = Some d
            \<longrightarrow> snd (Resample_call P self img (Tensor d g) mode)
                  = Tensor d \<lparr>axes = axes g,
                               rows = map (\<lambda>i. if i < length dims then float_row i
                                                else rows g ! i) [0..<length (rows g)]\<rparr>
              \<and> snd (Resample_call P self img (IntTensor d g) mode)
                  = IntTensor d \<lparr>axes = axes g,
                                  rows = map (\<lambda>i. if i < length dims then int_row i
                                                   else rows g ! i) [0..<length (rows g)]\<rparr>
              \<and> ((snd (Resample_call P self img (Tensor d g) mode) \<noteq> Tensor d g)
                   = (\<exists>i<length dims. i < length (rows g) \<and> float_row i \<noteq> rows g ! i))
              \<and> ((snd (Resample_call P self img (IntTensor d g) mode) \<noteq> IntTensor d g)
                   = (\<exists>i<length dims. i < length (rows g) \<and> int_row i \<noteq> rows g ! i)))"
proof -
  have moved: "snd (Resample_call P self img (Tensor d g) mode) = Tensor d g
              \<and> snd (Resample_call P self img (IntTensor d g) mode) = IntTensor d g"
    if "rs_device self = Some d' \<and> d' \<noteq> d"
    using that grid_after_moved[of self d' d P img g mode] by simp
  have inplace: "snd (Resample_call P self img (Tensor d g) mode)
                  = Tensor d \<lparr>axes = axes g,
                               rows = map (\<lambda>i. if i < length dims then float_row i
                                                else rows g ! i) [0..<length (rows g)]\<rparr>"
    "snd (Resample_call P self img (IntTensor d g) mode)
                  = IntTensor d \<lparr>axes = axes g,
                                  rows = map (\<lambda>i. if i < length dims then int_row i
                                                   else rows g ! i) [0..<length (rows g)]\<rparr>"
    if a: "rs_device self = None \<or> rs_device self = Some d"
    using grid_after_tensor[OF a, of P img g mode]
    by (simp_all add: normalize_rows_closed store_row_def dims_def float_row_def int_row_def)
  have differs: "(Tensor d \<lparr>axes = axes g,
                               rows = map (\<lambda>i. if i < length dims then float_row i
                                                else rows g ! i) [0..<length (rows g)]\<rparr>
                    \<noteq> Tensor d g)
                   = (\<exists>i<length dims. i < length (rows g) \<and> float_row i \<noteq> rows g ! i)"
    "(IntTensor d \<lparr>axes = axes g,
                                  rows = map (\<lambda>i. if i < length dims then int_row i
                                                   else rows g ! i) [0..<length (rows g)]\<rparr>
                    \<noteq> IntTensor d g)
                   = (\<exists>i<length dims. i < length (rows g) \<and> int_row i \<noteq> rows g ! i)"
    using rows_differ[of g "length dims" float_row] rows_differ[of g "length dims" int_row]
    by simp_all
  show ?thesis
    using grid_after_numpy[of P self img g mode] moved inplace differs by simp
qed

theorem Resample_grid_after_witness:
  "snd (Resample_call example_prims example_resampler example_image_2x2
          (Numpy (spec_create_grid [2, 2])) Bilinear) = Numpy (spec_create_grid [2, 2])
   \<and> snd (Resample_call example_prims example_resampler example_image_2x2
          (Tensor CPU (spec_create_grid [2, 2])) Bilinear)
     = Tensor CPU \<lparr>axes = [2, 2],
                    rows = [[Fin (- 1), Fin (- 1), Fin 1, Fin 1],
                            [Fin (- 1), Fin 1, Fin (- 1), Fin 1],
                            [Fin 1, Fin 1, Fin 1, Fin 1]]\<rparr>
   \<and> snd (Resample_call example_prims example_resampler example_ones_4x4
          (IntTensor CPU example_int_grid) Bilinear)
     = IntTensor CPU \<lparr>axes = [2, 2],
                       rows = [[Fin 0, Fin 0, Fin 0, Fin 0],
                               [Fin 0, Fin 0, Fin 0, Fin 0],
                               [Fin 1, Fin 1, Fin 1, Fin 1]]\<rparr>
   \<and> snd (Resample_call example_prims (example_resampler\<lparr>rs_device := Some CPU\<rparr>)
          example_image_2x2 (Tensor (CUDA 0) (spec_create_grid [2, 2])) Bilinear)
     = Tensor (CUDA 0) (spec_create_grid [2, 2])"
proof -
  have t: "to_int64 example_prims (Fin (2 / 3)) = Fin 0"
    "to_int64 example_prims (Fin (- (2 / 3))) = Fin 0"
    by code_simp+
  show ?thesis
    using Resample_grid_after[where P = example_prims and self = example_resampler
        and img = example_image_2x2 and g = "spec_create_grid [2, 2]" and mode = Bilinear
        and d = CPU and d' = CPU]
      Resample_grid_after[where P = example_prims and self = example_resampler
        and img = example_ones_4x4 and g = example_int_grid and mode = Bilinear
        and d = CPU and d' = CPU]
      Resample_grid_after[where P = example_prims
        and self = "example_resampler\<lparr>rs_device := Some CPU\<rparr>"
        and img = example_image_2x2 and g = "spec_create_grid [2, 2]" and mode = Bilinear
        and d = "CUDA 0" and d' = CPU]
    by (simp add: example_resampler_def example_image_2x2_def example_ones_4x4_def
        example_int_grid_def grid22 normalize_row_def t upt_conv_Cons del: upt_Suc)
qed

text \<open>
  An image of shape \<open>(1, 3, 3)\<close> and the grid of \<open>create_grid((3, 3))\<close> as a CPU tensor:
  \<open>2 * grid[i] / (3 - 1)\<close> is \<open>grid[i]\<close>, and the caller's grid is the same after the call.
\<close>

theorem Resample_grid_same_3x3:
  "snd (Resample_call example_prims example_resampler example_image_3x3
          (Tensor CPU (spec_create_grid [3, 3])) Bilinear)
     = Tensor CPU (spec_create_grid [3, 3])"
  by code_simp

section \<open>Properties of Resample: the rows of the grid\<close>













section \<open>Properties of Resample: an axis of one pixel\<close>









section \<open>Resampling on the identity grid\<close>

text \<open>
  Claim C1. \<open>Affine(rotate_params=0, scale_params=None)\<close> with the defaults, called on the
  image of shape \<open>(1, 4, 4)\<close> whose pixels are all \<open>1\<close> with \<open>spatial_size = (4, 4)\<close> and
  the default mode \<open>bilinear\<close>: the grid is that of \<open>create_grid\<close>, whose coordinates
  \<open>-3/2, -1/2, 1/2, 3/2\<close> line 480 scales to \<open>-1, -1/3, 1/3, 1\<close>; with
  \<open>align_corners=False\<close> these are the pixel positions \<open>-1/2, 5/6, 13/6, 7/2\<close>, not
  \<open>0, 1, 2, 3\<close>. The outer positions lie half outside the image, so the border of the
  output is \<open>1/2\<close> and its corners are \<open>1/4\<close>: the output is not the input.
\<close>

theorem Affine_identity_4x4:
  "Affine_call example_utils example_prims
     (Affine_init (PScalar 0) PNone PNone PNone Zeros False None)
     example_ones_4x4 [4, 4] Bilinear
   = Inr (Numpy \<lparr>axes = [4, 4],
                 rows = [[Fin (1 / 4), Fin (1 / 2), Fin (1 / 2), Fin (1 / 4),
                          Fin (1 / 2), Fin 1, Fin 1, Fin (1 / 2),
                          Fin (1 / 2), Fin 1, Fin 1, Fin (1 / 2),
                          Fin (1 / 4), Fin (1 / 2), Fin (1 / 2), Fin (1 / 4)]]\<rparr>)"
  by code_simp

text \<open>
  Claim C2. \<open>Resample\<close> with the defaults, called in mode \<open>nearest\<close> on the image of shape
  \<open>(1, 2, 2)\<close> with the pixels \<open>0, 1, 2, 3\<close> and the grid of \<open>create_grid((2, 2))\<close>: the
  coordinates \<open>-1/2, 1/2\<close> are scaled to \<open>-1, 1\<close>, the pixel positions \<open>-1/2\<close> and \<open>3/2\<close>;
  their nearest pixels are \<open>0\<close> and \<open>2\<close>, and \<open>2\<close> is outside the image. The output holds
  pixel \<open>(0, 0)\<close> at its first position and the padding value \<open>0\<close> elsewhere: it is not the
  input.
\<close>

theorem Resample_identity_nearest_2x2:
  "fst (Resample_call example_prims example_resampler example_image_2x2
          (Numpy (spec_create_grid [2, 2])) Nearest)
   = Inr (Numpy \<lparr>axes = [2, 2], rows = [[Fin 0, Fin 0, Fin 0, Fin 0]]\<rparr>)"
  by code_simp

end
